theory Spec2Isabelle
  imports Complex_Main "HOL-Library.Multiset"
begin

section \<open>The JavaScript values the data table works on\<close>

text \<open>
  The table component (\<^verbatim>\<open>frontend/src/components/DataTable.js\<close>) and the CSV helpers
  (\<^verbatim>\<open>convertToCSV\<close>, \<^verbatim>\<open>downloadCSV\<close>, \<^verbatim>\<open>downloadJSON\<close>) work on rows that came out of a
  JSON response: objects whose properties hold \<^verbatim>\<open>null\<close>, booleans, numbers or strings.

  A JavaScript number is a double. The model keeps the three kinds the code distinguishes
  (\<^verbatim>\<open>NaN\<close>, the two infinities, finite values) and represents a finite double by the
  rational it denotes; the sign of zero is not modelled. Rounding a rational to the
  nearest double is the host's \<open>toDouble\<close> below. A string is a list of code units; the
  model has the code units below 256 (Latin-1), one \<^typ>\<open>char\<close> each.

  Reading a property that a row does not have itself goes to \<^verbatim>\<open>Object.prototype\<close>: the
  result is \<^verbatim>\<open>undefined\<close> unless the name is one of the prototype's members, and then it
  is that member, a function (for \<^verbatim>\<open>__proto__\<close> the prototype object). \<open>Inherited\<close> is such
  a member, by name.
\<close>

datatype number = NaN | PosInf | NegInf | Finite rat

datatype jsval = Null | Undefined | Bool bool | Num number | Str string | Inherited string

type_synonym row = "(string \<times> jsval) list"

text \<open>
  A row is the list of its own properties in enumeration order (the order of
  \<^verbatim>\<open>Object.keys\<close>). \<^verbatim>\<open>row[column]\<close> is the value of the row's own property when it has
  one, and otherwise what \<^verbatim>\<open>Object.prototype\<close> has under that name.
\<close>

definition object_prototype_names :: "string list" where
  "object_prototype_names =
     [''constructor'', ''__defineGetter__'', ''__defineSetter__'', ''hasOwnProperty'',
      ''__lookupGetter__'', ''__lookupSetter__'', ''isPrototypeOf'', ''propertyIsEnumerable'',
      ''toString'', ''valueOf'', ''__proto__'', ''toLocaleString'']"

definition property :: "row \<Rightarrow> string \<Rightarrow> jsval" where
  "property r c =
     (case map_of r c of
        Some v \<Rightarrow> v
      | None \<Rightarrow> if c \<in> set object_prototype_names then Inherited c else Undefined)"

definition keys :: "row \<Rightarrow> string list" where
  "keys r = map fst r"

text \<open>\<^verbatim>\<open>v == null\<close> holds of \<^verbatim>\<open>null\<close> and of \<^verbatim>\<open>undefined\<close>, and of nothing else.\<close>

fun loosely_null :: "jsval \<Rightarrow> bool" where
  "loosely_null Null = True"
| "loosely_null Undefined = True"
| "loosely_null _ = False"

subsection \<open>Numbers\<close>

fun isNaN :: "number \<Rightarrow> bool" where
  "isNaN NaN = True"
| "isNaN _ = False"

text \<open>
  The subtraction \<^verbatim>\<open>a - b\<close> of two numbers: infinities of equal sign cancel to \<^verbatim>\<open>NaN\<close>.
  The difference of two finite doubles is kept exact here. The engine rounds it to a
  double, which never changes its sign, and the sign is all that the sort reads of a
  comparator result.
\<close>

fun minus_number :: "number \<Rightarrow> number \<Rightarrow> number" where
  "minus_number NaN _ = NaN"
| "minus_number _ NaN = NaN"
| "minus_number PosInf PosInf = NaN"
| "minus_number NegInf NegInf = NaN"
| "minus_number PosInf _ = PosInf"
| "minus_number NegInf _ = NegInf"
| "minus_number (Finite a) PosInf = NegInf"
| "minus_number (Finite a) NegInf = PosInf"
| "minus_number (Finite a) (Finite b) = Finite (a - b)"

text \<open>\<^verbatim>\<open>v < 0\<close> and \<^verbatim>\<open>v > 0\<close>; both are false of \<^verbatim>\<open>NaN\<close>.\<close>

fun negative :: "number \<Rightarrow> bool" where
  "negative NegInf = True"
| "negative (Finite q) = (q < 0)"
| "negative _ = False"

fun positive :: "number \<Rightarrow> bool" where
  "positive PosInf = True"
| "positive (Finite q) = (0 < q)"
| "positive _ = False"

subsection \<open>Strings\<close>

definition comma :: char where "comma = CHR 0x2C"
definition dquote :: char where "dquote = CHR 0x22"
definition newline :: char where "newline = CHR 0x0A"

definition code :: "char \<Rightarrow> nat" where
  "code c = of_char c"

text \<open>
  The white space of \<^verbatim>\<open>parseFloat\<close> and of the regular expression class \<^verbatim>\<open>\s\<close>: TAB, LF,
  VT, FF, CR, SPACE and NO-BREAK SPACE are the ones below 256.
\<close>

definition is_space :: "char \<Rightarrow> bool" where
  "is_space c = (code c \<in> {9, 10, 11, 12, 13, 32, 160})"

definition is_digit :: "char \<Rightarrow> bool" where
  "is_digit c = (48 \<le> code c \<and> code c \<le> 57)"

text \<open>
  \<^verbatim>\<open>String.prototype.toLowerCase\<close> on Latin-1 code units: A to Z, and the accented capitals
  U+00C0 to U+00DE except the multiplication sign U+00D7, move up by 32.
\<close>

definition lower_char :: "char \<Rightarrow> char" where
  "lower_char c =
     (if (65 \<le> code c \<and> code c \<le> 90) \<or> (192 \<le> code c \<and> code c \<le> 222 \<and> code c \<noteq> 215)
      then char_of (code c + 32) else c)"

definition toLowerCase :: "string \<Rightarrow> string" where
  "toLowerCase s = map lower_char s"

text \<open>\<^verbatim>\<open>Array.prototype.join\<close> on strings.\<close>

fun join :: "string \<Rightarrow> string list \<Rightarrow> string" where
  "join sep [] = []"
| "join sep [x] = x"
| "join sep (x # y # ys) = x @ sep @ join sep (y # ys)"

text \<open>
  \<^verbatim>\<open>Array.prototype.slice(start, end)\<close> with integer arguments: a negative index counts
  from the end, and both are clamped to the array.
\<close>

definition relative_index :: "nat \<Rightarrow> int \<Rightarrow> nat" where
  "relative_index len i = (if i < 0 then nat (max (int len + i) 0) else min (nat i) len)"

definition slice :: "'a list \<Rightarrow> int \<Rightarrow> int \<Rightarrow> 'a list" where
  "slice xs start end =
     (let k = relative_index (length xs) start;
          final = relative_index (length xs) end
      in take (final - k) (drop k xs))"

subsection \<open>parseFloat\<close>

text \<open>
  \<^verbatim>\<open>parseFloat\<close> turns its argument into a string, skips leading white space and reads
  the longest prefix that is a decimal literal: an optional sign, then \<^verbatim>\<open>Infinity\<close> or
  digits with an optional fraction and an optional exponent. Whatever follows is
  ignored; when there is no such prefix the result is \<^verbatim>\<open>NaN\<close>. The value of the digits
  is rounded to a double by \<open>nearest\<close>, which the host supplies.
\<close>

fun decimal :: "nat \<Rightarrow> string \<Rightarrow> nat" where
  "decimal acc [] = acc"
| "decimal acc (c # cs) = decimal (acc * 10 + (code c - 48)) cs"

definition scale10 :: "rat \<Rightarrow> int \<Rightarrow> rat" where
  "scale10 m e = (if 0 \<le> e then m * 10 ^ nat e else m / 10 ^ nat (- e))"

definition exponent_part :: "string \<Rightarrow> int" where
  "exponent_part s =
     (case s of
        [] \<Rightarrow> 0
      | e # t \<Rightarrow>
          if code e = 101 \<or> code e = 69 then
            (case t of
               [] \<Rightarrow> 0
             | sg # u \<Rightarrow>
                 if code sg = 43 then
                   (if takeWhile is_digit u = [] then 0 else int (decimal 0 (takeWhile is_digit u)))
                 else if code sg = 45 then
                   (if takeWhile is_digit u = [] then 0 else - int (decimal 0 (takeWhile is_digit u)))
                 else
                   (if takeWhile is_digit t = [] then 0 else int (decimal 0 (takeWhile is_digit t))))
          else 0)"

definition unsigned_literal :: "(rat \<Rightarrow> number) \<Rightarrow> string \<Rightarrow> number" where
  "unsigned_literal nearest s =
     (if take 8 s = ''Infinity'' then PosInf
      else
        let ip = takeWhile is_digit s;
            r1 = dropWhile is_digit s;
            has_dot = (r1 \<noteq> [] \<and> code (hd r1) = 46);
            fp = (if has_dot then takeWhile is_digit (tl r1) else []);
            r2 = (if has_dot then dropWhile is_digit (tl r1) else r1)
        in if ip = [] \<and> fp = [] then NaN
           else nearest (scale10 (of_nat (decimal 0 (ip @ fp)) / 10 ^ length fp) (exponent_part r2)))"

fun negate :: "number \<Rightarrow> number" where
  "negate NaN = NaN"
| "negate PosInf = NegInf"
| "negate NegInf = PosInf"
| "negate (Finite q) = Finite (- q)"

definition parse_literal :: "(rat \<Rightarrow> number) \<Rightarrow> string \<Rightarrow> number" where
  "parse_literal nearest s =
     (case dropWhile is_space s of
        [] \<Rightarrow> NaN
      | c # cs \<Rightarrow>
          if code c = 45 then negate (unsigned_literal nearest cs)
          else if code c = 43 then unsigned_literal nearest cs
          else unsigned_literal nearest (c # cs))"

section \<open>What the host supplies\<close>

text \<open>
  The code calls into the JavaScript engine and the browser for things that the
  language leaves to the implementation or to the user's locale, or that are arithmetic
  on doubles. They are parameters of the model:
  \<^item> \<open>sort_calls\<close>: which argument order \<^verbatim>\<open>Array.prototype.sort\<close> uses when it asks the
    comparator about two elements (see \<open>array_sort\<close> below);
  \<^item> \<open>localeCompare\<close>: the collation of \<^verbatim>\<open>String.prototype.localeCompare\<close> in the current
    locale, negative, zero or positive;
  \<^item> \<open>numberToString\<close>: the string form of a number (\<^verbatim>\<open>String(n)\<close>, also what \<^verbatim>\<open>join\<close> uses);
  \<^item> \<open>toLocaleString\<close>: \<^verbatim>\<open>Number.prototype.toLocaleString\<close>, the grouped form of a number;
  \<^item> \<open>stringify\<close>: \<^verbatim>\<open>JSON.stringify(rows, null, 2)\<close>;
  \<^item> \<open>toDouble\<close>: the double nearest to a rational (ties to even), an infinity when the
    rational is beyond the range of the doubles;
  \<^item> \<open>inheritedToString\<close>: the string form of a member of \<^verbatim>\<open>Object.prototype\<close>, the source
    text of a native function or \<^verbatim>\<open>[object Object]\<close>.
\<close>

datatype sort_calls = Later_earlier | Earlier_later

record host =
  sort_calls :: sort_calls
  localeCompare :: "string \<Rightarrow> string \<Rightarrow> int"
  numberToString :: "number \<Rightarrow> string"
  toLocaleString :: "number \<Rightarrow> string"
  stringify :: "row list \<Rightarrow> string"
  toDouble :: "rat \<Rightarrow> number"
  inheritedToString :: "string \<Rightarrow> string"

text \<open>\<^verbatim>\<open>String(v)\<close>.\<close>

fun toString :: "host \<Rightarrow> jsval \<Rightarrow> string" where
  "toString h Null = ''null''"
| "toString h Undefined = ''undefined''"
| "toString h (Bool b) = (if b then ''true'' else ''false'')"
| "toString h (Num n) = numberToString h n"
| "toString h (Str s) = s"
| "toString h (Inherited name) = inheritedToString h name"

text \<open>
  \<^verbatim>\<open>parseFloat(v)\<close>. The string form of a number reads back as that number, so a number
  is its own result. The string form of a member of \<^verbatim>\<open>Object.prototype\<close> begins with
  \<^verbatim>\<open>function\<close> or with a bracket, which is no number.
\<close>

fun parseFloat :: "host \<Rightarrow> jsval \<Rightarrow> number" where
  "parseFloat h (Num n) = n"
| "parseFloat h (Inherited name) = NaN"
| "parseFloat h v = parse_literal (toDouble h) (toString h v)"

subsection \<open>Array.prototype.sort\<close>

text \<open>
  ECMAScript requires \<^verbatim>\<open>sort\<close> to be stable and leaves the sequence of comparator calls
  to the engine; a comparator result of \<^verbatim>\<open>NaN\<close> counts as zero. When the comparator is
  not a consistent ordering of the elements, the resulting order is implementation-defined.
  The model is the stable insertion sort: each element in turn is moved left past its
  predecessors for as long as the comparator says it belongs before them. Engines
  differ in how they ask, and the model has both ways:
  \<^item> \<open>Later_earlier\<close>: the element being placed is the first argument and it moves
    while \<^verbatim>\<open>comparefn(item, previous) < 0\<close> (V8 asks this way);
  \<^item> \<open>Earlier_later\<close>: the predecessor is the first argument and the element stops
    when \<^verbatim>\<open>comparefn(previous, item) <= 0\<close> (SpiderMonkey asks this way).
  On long arrays engines merge sorted runs instead of inserting one element at a time;
  they ask the comparator in the same argument order.

  \<open>place\<close> works on the sorted prefix held in reverse, nearest predecessor first.
\<close>

fun moves_before :: "sort_calls \<Rightarrow> ('a \<Rightarrow> 'a \<Rightarrow> number) \<Rightarrow> 'a \<Rightarrow> 'a \<Rightarrow> bool" where
  "moves_before Later_earlier comparefn item previous = negative (comparefn item previous)"
| "moves_before Earlier_later comparefn item previous = positive (comparefn previous item)"

fun place :: "sort_calls \<Rightarrow> ('a \<Rightarrow> 'a \<Rightarrow> number) \<Rightarrow> 'a \<Rightarrow> 'a list \<Rightarrow> 'a list" where
  "place e comparefn item [] = [item]"
| "place e comparefn item (previous # rest) =
     (if moves_before e comparefn item previous
      then previous # place e comparefn item rest
      else item # previous # rest)"

fun sort_loop :: "sort_calls \<Rightarrow> ('a \<Rightarrow> 'a \<Rightarrow> number) \<Rightarrow> 'a list \<Rightarrow> 'a list \<Rightarrow> 'a list" where
  "sort_loop e comparefn done [] = rev done"
| "sort_loop e comparefn done (item # todo) = sort_loop e comparefn (place e comparefn item done) todo"

definition array_sort :: "sort_calls \<Rightarrow> ('a \<Rightarrow> 'a \<Rightarrow> number) \<Rightarrow> 'a list \<Rightarrow> 'a list" where
  "array_sort e comparefn xs = sort_loop e comparefn [] xs"


section \<open>The DataTable component\<close>

text \<open>
  The props the code reads (\<^verbatim>\<open>maxHeight\<close> only styles the wrapper). \<^verbatim>\<open>maxRows\<close> is
  \<^verbatim>\<open>null\<close> by default and an integer when the caller sets it. A \<^verbatim>\<open>data\<close> prop that is
  missing takes the branches of the empty array (\<^verbatim>\<open>!data || data.length === 0\<close>), so the
  empty list stands for both. The hook state is what the four \<^verbatim>\<open>useState\<close> calls hold.
\<close>

record props =
  data :: "row list"
  title :: string
  maxRows :: "int option"
  showExport :: bool

datatype direction = Asc | Desc

record expanded =
  cell_value :: jsval
  cell_column :: string
  cell_rowIndex :: nat

record state =
  sortColumn :: "string option"
  sortDirection :: direction
  currentPage :: int
  expandedCell :: "expanded option"

definition rowsPerPage :: nat where
  "rowsPerPage = 10"

text \<open>
  Truthiness, as \<^verbatim>\<open>if (maxRows)\<close> and \<^verbatim>\<open>if (sortColumn)\<close> test it: \<^verbatim>\<open>null\<close>, the number 0
  and the empty string are falsy.
\<close>

fun truthy_int :: "int option \<Rightarrow> bool" where
  "truthy_int None = False"
| "truthy_int (Some m) = (m \<noteq> 0)"

fun truthy_string :: "string option \<Rightarrow> bool" where
  "truthy_string None = False"
| "truthy_string (Some c) = (c \<noteq> [])"

subsection \<open>The comparator of processedData\<close>

text \<open>The arrow function handed to \<^verbatim>\<open>sortedData.sort\<close>, with the branches in source order.\<close>

definition compareRows :: "host \<Rightarrow> string \<Rightarrow> direction \<Rightarrow> row \<Rightarrow> row \<Rightarrow> number" where
  "compareRows h column dir a b =
     (let aVal = property a column;
          bVal = property b column
      in if loosely_null aVal then Finite 1
         else if loosely_null bVal then Finite (- 1)
         else
           let aNum = parseFloat h aVal;
               bNum = parseFloat h bVal
           in if \<not> isNaN aNum \<and> \<not> isNaN bNum then
                (if dir = Asc then minus_number aNum bNum else minus_number bNum aNum)
              else
                let aStr = toLowerCase (toString h aVal);
                    bStr = toLowerCase (toString h bVal)
                in if dir = Asc then Finite (of_int (localeCompare h aStr bStr))
                   else Finite (of_int (localeCompare h bStr aStr)))"

subsection \<open>Derived rows and pagination\<close>

definition processedData :: "host \<Rightarrow> props \<Rightarrow> state \<Rightarrow> row list" where
  "processedData h p s =
     (if data p = [] then []
      else
        let sortedData =
              (if truthy_string (sortColumn s)
               then array_sort (sort_calls h) (compareRows h (the (sortColumn s)) (sortDirection s)) (data p)
               else data p)
        in if truthy_int (maxRows p) then slice sortedData 0 (the (maxRows p)) else sortedData)"

text \<open>\<^verbatim>\<open>Math.ceil(processedData.length / rowsPerPage)\<close>.\<close>

definition totalPages :: "host \<Rightarrow> props \<Rightarrow> state \<Rightarrow> int" where
  "totalPages h p s = int ((length (processedData h p s) + rowsPerPage - 1) div rowsPerPage)"

definition startIndex :: "state \<Rightarrow> int" where
  "startIndex s = (currentPage s - 1) * int rowsPerPage"

definition endIndex :: "state \<Rightarrow> int" where
  "endIndex s = startIndex s + int rowsPerPage"

definition currentData :: "host \<Rightarrow> props \<Rightarrow> state \<Rightarrow> row list" where
  "currentData h p s = slice (processedData h p s) (startIndex s) (endIndex s)"

subsection \<open>Event handlers\<close>

definition handleSort :: "string \<Rightarrow> state \<Rightarrow> state" where
  "handleSort column s =
     (if sortColumn s = Some column
      then s\<lparr>sortDirection := (if sortDirection s = Asc then Desc else Asc), currentPage := 1\<rparr>
      else s\<lparr>sortColumn := Some column, sortDirection := Asc, currentPage := 1\<rparr>)"

definition setCurrentPage :: "int \<Rightarrow> state \<Rightarrow> state" where
  "setCurrentPage page s = s\<lparr>currentPage := page\<rparr>"

definition handleCellClick :: "jsval \<Rightarrow> string \<Rightarrow> nat \<Rightarrow> state \<Rightarrow> state" where
  "handleCellClick v column rowIndex s =
     (case v of
        Str str \<Rightarrow>
          if length str > 50
          then s\<lparr>expandedCell := Some \<lparr>cell_value = v, cell_column = column, cell_rowIndex = rowIndex\<rparr>\<rparr>
          else s
      | _ \<Rightarrow> s)"

definition closeExpanded :: "state \<Rightarrow> state" where
  "closeExpanded s = s\<lparr>expandedCell := None\<rparr>"

text \<open>\<^verbatim>\<open>formatNumber\<close> of the helpers, on a number, and \<^verbatim>\<open>formatCellValue\<close>.\<close>

definition formatNumber :: "host \<Rightarrow> number \<Rightarrow> string" where
  "formatNumber h num = toLocaleString h num"

definition formatCellValue :: "host \<Rightarrow> jsval \<Rightarrow> string" where
  "formatCellValue h v =
     (case v of
        Null \<Rightarrow> ''-''
      | Undefined \<Rightarrow> ''-''
      | Num n \<Rightarrow> formatNumber h n
      | Str str \<Rightarrow> if length str > 50 then take 50 str @ ''...'' else toString h v
      | _ \<Rightarrow> toString h v)"

subsection \<open>Mounting and re-rendering\<close>

text \<open>
  \<^verbatim>\<open>useState(initial)\<close> uses its argument on the first render of a component instance
  only; on every later render, whatever props arrive, it returns the state the instance
  already has. The component has no effect hook, so nothing else writes the state
  between events.
\<close>

definition initial_state :: state where
  "initial_state = \<lparr>sortColumn = None, sortDirection = Asc, currentPage = 1, expandedCell = None\<rparr>"

definition mount :: "props \<Rightarrow> props \<times> state" where
  "mount p = (p, initial_state)"

definition rerender :: "props \<Rightarrow> props \<times> state \<Rightarrow> props \<times> state" where
  "rerender p' inst = (p', snd inst)"

section \<open>Export\<close>

subsection \<open>convertToCSV\<close>

text \<open>
  One field of a data row: \<^verbatim>\<open>null\<close> and \<^verbatim>\<open>undefined\<close> become the empty string, a string
  with a comma, a double quote or a line feed is quoted, and \<^verbatim>\<open>join\<close> then takes the
  string form of whatever the value is.
\<close>

definition replace_quotes :: "string \<Rightarrow> string" where
  "replace_quotes s = concat (map (\<lambda>c. if c = dquote then [dquote, dquote] else [c]) s)"

definition str_includes :: "string \<Rightarrow> char \<Rightarrow> bool" where
  "str_includes s c = (c \<in> set s)"

definition csv_value :: "jsval \<Rightarrow> jsval" where
  "csv_value v0 =
     (let v = (if v0 = Null \<or> v0 = Undefined then Str [] else v0)
      in case v of
           Str s \<Rightarrow>
             if str_includes s comma \<or> str_includes s dquote \<or> str_includes s newline
             then Str ([dquote] @ replace_quotes s @ [dquote])
             else v
         | _ \<Rightarrow> v)"

definition convertToCSV :: "host \<Rightarrow> row list \<Rightarrow> string" where
  "convertToCSV h rows =
     (if rows = [] then []
      else
        let headers = keys (hd rows);
            csvHeaders = join [comma] headers;
            csvRows = map (\<lambda>r. join [comma] (map (\<lambda>header. toString h (csv_value (property r header))) headers)) rows
        in join [newline] (csvHeaders # csvRows))"

subsection \<open>Downloads\<close>

text \<open>
  \<^verbatim>\<open>downloadCSV\<close> and \<^verbatim>\<open>downloadJSON\<close> wrap their text in a Blob and click a link that
  downloads it under the file name; the model returns what is downloaded.
\<close>

record download =
  blob_text :: string
  blob_type :: string
  file_name :: string

definition downloadCSV :: "host \<Rightarrow> row list \<Rightarrow> string \<Rightarrow> download" where
  "downloadCSV h rows filename =
     \<lparr>blob_text = convertToCSV h rows, blob_type = ''text/csv;charset=utf-8;'', file_name = filename\<rparr>"

definition downloadJSON :: "host \<Rightarrow> row list \<Rightarrow> string \<Rightarrow> download" where
  "downloadJSON h rows filename =
     \<lparr>blob_text = stringify h rows, blob_type = ''application/json;charset=utf-8;'', file_name = filename\<rparr>"

text \<open>\<^verbatim>\<open>replace(/\s+/g, '_')\<close>: every maximal run of white space becomes one underscore.\<close>

fun underscore_runs :: "bool \<Rightarrow> string \<Rightarrow> string" where
  "underscore_runs in_run [] = []"
| "underscore_runs in_run (c # cs) =
     (if is_space c then (if in_run then underscore_runs True cs else CHR ''_'' # underscore_runs True cs)
      else c # underscore_runs False cs)"

definition underscore_spaces :: "string \<Rightarrow> string" where
  "underscore_spaces s = underscore_runs False s"

definition exportData :: "props \<Rightarrow> row list" where
  "exportData p = (if truthy_int (maxRows p) then slice (data p) 0 (the (maxRows p)) else data p)"

definition handleExport :: "host \<Rightarrow> props \<Rightarrow> state \<Rightarrow> string \<Rightarrow> download" where
  "handleExport h p s format =
     (let filename = underscore_spaces (toLowerCase (title p)) @ ''.'' @ format
      in if format = ''csv'' then downloadCSV h (exportData p) filename
         else downloadJSON h (exportData p) filename)"


section \<open>A host for the worked examples\<close>

text \<open>
  The concrete examples below run on a host whose collation compares code units and
  which prints whole numbers in decimal. Its \<open>toDouble\<close> rounds nothing: every number in
  the examples is a double as it stands. Its \<open>stringify\<close> and \<open>inheritedToString\<close> are
  stand-ins: no example exports JSON or reads a member of \<^verbatim>\<open>Object.prototype\<close>.
\<close>

fun codeunit_compare :: "string \<Rightarrow> string \<Rightarrow> int" where
  "codeunit_compare [] [] = 0"
| "codeunit_compare [] (y # ys) = - 1"
| "codeunit_compare (x # xs) [] = 1"
| "codeunit_compare (x # xs) (y # ys) =
     (if code x < code y then - 1 else if code y < code x then 1 else codeunit_compare xs ys)"

fun decimal_digits :: "nat \<Rightarrow> string" where
  "decimal_digits n =
     (if n < 10 then [char_of (48 + n)] else decimal_digits (n div 10) @ [char_of (48 + n mod 10)])"

definition sample_number_text :: "number \<Rightarrow> string" where
  "sample_number_text n =
     (case n of
        NaN \<Rightarrow> ''NaN''
      | PosInf \<Rightarrow> ''Infinity''
      | NegInf \<Rightarrow> ''-Infinity''
      | Finite q \<Rightarrow> (if q < 0 then ''-'' else []) @ decimal_digits (nat \<lfloor>\<bar>q\<bar>\<rfloor>))"

definition sample_host :: "sort_calls \<Rightarrow> host" where
  "sample_host e =
     \<lparr>sort_calls = e, localeCompare = codeunit_compare, numberToString = sample_number_text,
      toLocaleString = sample_number_text, stringify = (\<lambda>rows. []), toDouble = Finite,
      inheritedToString = (\<lambda>name. ''function '' @ name @ ''() { [native code] }'')\<rparr>"


definition sample_rows :: "row list" where
  "sample_rows =
     [[(''a'', Str ''3''), (''b'', Null)],
      [(''a'', Str ''1''), (''b'', Str ''x'')],
      [(''a'', Str ''2''), (''b'', Null)]]"

definition sample_props :: props where
  "sample_props = \<lparr>data = sample_rows, title = ''Query Results'', maxRows = Some 2, showExport = True\<rparr>"

definition many_rows_props :: props where
  "many_rows_props =
     \<lparr>data = replicate 25 [(''a'', Str ''x'')], title = ''Data Table'', maxRows = None, showExport = False\<rparr>"

definition one_row_props :: props where
  "one_row_props = \<lparr>data = [[(''b'', Str ''y'')]], title = ''Data Table'', maxRows = None, showExport = False\<rparr>"

definition no_rows_props :: props where
  "no_rows_props = \<lparr>data = [], title = ''Data Table'', maxRows = None, showExport = False\<rparr>"

definition hello_world :: string where
  "hello_world = ''Hello, '' @ [dquote] @ ''World'' @ [dquote]"

definition unsorted_props :: props where
  "unsorted_props = \<lparr>data = sample_rows, title = ''Query Results'', maxRows = None, showExport = True\<rparr>"



definition ten_nine_props :: props where
  "ten_nine_props =
     \<lparr>data = [[(''v'', Str ''10'')], [(''v'', Str ''9'')]], title = ''Data Table'',
      maxRows = None, showExport = False\<rparr>"









section \<open>Orders that a sorted column can be in\<close>








section \<open>Where the null rows are while the sort runs\<close>


section \<open>The CSV format in the words of the specification\<close>

text \<open>
  The specification describes a data field as: empty for \<^verbatim>\<open>null\<close> and \<^verbatim>\<open>undefined\<close>; a
  string that contains a comma, a double quote or a newline wrapped in double quotes
  with every inner double quote doubled; any other value as it prints. A line is the
  fields of one record, in the column order of the dataset, joined by commas.
\<close>

fun double_quotes :: "string \<Rightarrow> string" where
  "double_quotes [] = []"
| "double_quotes (c # cs) =
     (if c = dquote then dquote # dquote # double_quotes cs else c # double_quotes cs)"

definition csv_field_spec :: "host \<Rightarrow> jsval \<Rightarrow> string" where
  "csv_field_spec h v =
     (case v of
        Null \<Rightarrow> []
      | Undefined \<Rightarrow> []
      | Str s \<Rightarrow>
          if comma \<in> set s \<or> dquote \<in> set s \<or> newline \<in> set s
          then dquote # double_quotes s @ [dquote]
          else s
      | _ \<Rightarrow> toString h v)"

definition csv_line_spec :: "host \<Rightarrow> string list \<Rightarrow> row \<Rightarrow> string" where
  "csv_line_spec h columns r = join [comma] (map (\<lambda>c. csv_field_spec h (property r c)) columns)"

section \<open>Properties\<close>

subsection \<open>The sort is a permutation; slices from the start\<close>

lemma mset_place: "mset (place e f x ys) = add_mset x (mset ys)"
  by (induction ys) simp_all

lemma mset_sort_loop: "mset (sort_loop e f acc xs) = mset acc + mset xs"
  by (induction xs arbitrary: acc) (simp_all add: mset_place)

lemma mset_array_sort: "mset (array_sort e f xs) = mset xs"
  by (simp add: array_sort_def mset_sort_loop)

lemma length_array_sort: "length (array_sort e f xs) = length xs"
  using mset_array_sort [of e f xs] by (metis size_mset)

lemma slice_from_0: "0 \<le> m \<Longrightarrow> slice xs 0 m = take (nat m) xs"
  by (simp add: slice_def relative_index_def Let_def min_def)

subsection \<open>State across datasets\<close>

text \<open>
  C1, as the specification states it: whenever a new dataset replaces the current one,
  the sort state goes back to no column and ascending, the page to 1, the expanded cell
  is cleared, and the page is at most the number of pages.

  The code does not do this. A table showing page 3 of 25 rows, sorted descending by
  \<open>a\<close>, that is re-rendered with a dataset of one row keeps column, direction and page:
  page 3 of 1. And a table mounted with no rows is on page 1 of 0.
\<close>

theorem state_survives_new_dataset_counterexample:
  "sortColumn (snd (rerender one_row_props
      (many_rows_props, setCurrentPage 3 (handleSort ''a'' (handleSort ''a'' initial_state))))) = Some ''a''
   \<and> sortDirection (snd (rerender one_row_props
      (many_rows_props, setCurrentPage 3 (handleSort ''a'' (handleSort ''a'' initial_state))))) = Desc
   \<and> currentPage (snd (rerender one_row_props
      (many_rows_props, setCurrentPage 3 (handleSort ''a'' (handleSort ''a'' initial_state))))) = 3
   \<and> totalPages (sample_host Later_earlier) many_rows_props
        (setCurrentPage 3 (handleSort ''a'' (handleSort ''a'' initial_state))) = 3
   \<and> totalPages (sample_host Later_earlier) one_row_props
        (snd (rerender one_row_props
          (many_rows_props, setCurrentPage 3 (handleSort ''a'' (handleSort ''a'' initial_state))))) = 1
   \<and> \<not> currentPage (snd (mount no_rows_props))
        \<le> totalPages (sample_host Later_earlier) no_rows_props (snd (mount no_rows_props))"
  by code_simp

text \<open>
  C1, amended to what the code does: the sort state, the page and the expanded cell
  have their defaults when the table is mounted, and then the page is within the
  number of pages provided the dataset has a row and \<^verbatim>\<open>maxRows\<close> is not negative; a
  re-render with new props, whatever dataset they carry, leaves the state as it was.
\<close>

theorem state_set_on_mount_only:
  "snd (mount p) = \<lparr>sortColumn = None, sortDirection = Asc, currentPage = 1, expandedCell = None\<rparr>
   \<and> (data p \<noteq> [] \<and> (\<forall>m. maxRows p = Some m \<longrightarrow> 0 \<le> m) \<longrightarrow>
        currentPage (snd (mount p)) \<le> totalPages h p (snd (mount p)))
   \<and> rerender p' (p0, s) = (p', s)"
proof -
  have "1 \<le> totalPages h p initial_state"
    if ne: "data p \<noteq> []" and m: "\<forall>m. maxRows p = Some m \<longrightarrow> 0 \<le> m"
  proof -
    have "processedData h p initial_state \<noteq> []"
    proof (cases "maxRows p")
      case None
      with ne show ?thesis by (simp add: processedData_def initial_state_def)
    next
      case (Some k)
      with m have "0 \<le> k" by simp
      with ne Some show ?thesis
        by (cases "k = 0") (simp_all add: processedData_def initial_state_def slice_from_0)
    qed
    then obtain n where "length (processedData h p initial_state) = Suc n"
      by (cases "processedData h p initial_state") simp_all
    then show ?thesis by (simp add: totalPages_def rowsPerPage_def)
  qed
  then show ?thesis
    by (simp add: mount_def rerender_def initial_state_def)
qed

theorem state_set_on_mount_only_witness:
  "snd (mount one_row_props) = initial_state
   \<and> currentPage (snd (mount one_row_props))
        \<le> totalPages (sample_host Later_earlier) one_row_props (snd (mount one_row_props))
   \<and> snd (rerender one_row_props (many_rows_props, setCurrentPage 3 initial_state))
        = setCurrentPage 3 initial_state"
proof -
  have "data one_row_props \<noteq> [] \<and> (\<forall>m. maxRows one_row_props = Some m \<longrightarrow> 0 \<le> m)"
    by (simp add: one_row_props_def)
  with state_set_on_mount_only [of one_row_props "sample_host Later_earlier" one_row_props
      many_rows_props "setCurrentPage 3 initial_state"]
  show ?thesis by (simp add: initial_state_def mount_def)
qed

subsection \<open>Export\<close>

text \<open>
  C4: what \<^verbatim>\<open>handleExport\<close> downloads is the same in any two states of the table, so it
  depends on the dataset, \<^verbatim>\<open>maxRows\<close>, the title and the format only. The text is the
  serialisation of \<open>exportData\<close>, which is the first \<^verbatim>\<open>maxRows\<close> rows of the dataset in
  its own order when \<^verbatim>\<open>maxRows\<close> is a positive number and the whole dataset when it is
  not set; the sorted view plays no part.
\<close>

theorem export_independent_of_view:
  "handleExport h p s1 format = handleExport h p s2 format
   \<and> blob_text (handleExport h p s1 format)
       = (if format = ''csv'' then convertToCSV h (exportData p) else stringify h (exportData p))
   \<and> (\<forall>m. maxRows p = Some m \<and> 0 < m \<longrightarrow> exportData p = take (nat m) (data p))
   \<and> (maxRows p = None \<longrightarrow> exportData p = data p)"
  by (simp add: handleExport_def exportData_def downloadCSV_def downloadJSON_def slice_from_0 Let_def)

theorem export_independent_of_view_witness:
  "handleExport (sample_host Later_earlier) sample_props (handleSort ''a'' initial_state) ''csv''
     = handleExport (sample_host Later_earlier) sample_props initial_state ''csv''
   \<and> exportData sample_props = take 2 sample_rows
   \<and> processedData (sample_host Later_earlier) sample_props (handleSort ''a'' initial_state)
       \<noteq> take 2 sample_rows
   \<and> file_name (handleExport (sample_host Later_earlier) sample_props initial_state ''csv'')
       = ''query_results.csv''"
proof -
  have m: "maxRows sample_props = Some 2 \<and> (0::int) < 2"
    by (simp add: sample_props_def)
  have view: "processedData (sample_host Later_earlier) sample_props (handleSort ''a'' initial_state)
       \<noteq> take 2 sample_rows"
    by code_simp
  have name: "file_name (handleExport (sample_host Later_earlier) sample_props initial_state ''csv'')
       = ''query_results.csv''"
    by code_simp
  from export_independent_of_view [of "sample_host Later_earlier" sample_props
      "handleSort ''a'' initial_state" "''csv''" initial_state] m
  have "handleExport (sample_host Later_earlier) sample_props (handleSort ''a'' initial_state) ''csv''
          = handleExport (sample_host Later_earlier) sample_props initial_state ''csv''"
    and "exportData sample_props = take (nat 2) (data sample_props)"
    by blast+
  with view name show ?thesis by (simp add: sample_props_def)
qed

text \<open>
  C10: with \<^verbatim>\<open>maxRows\<close> 0 or \<^verbatim>\<open>null\<close> no limit applies. The derived rows are all the rows
  of the dataset (the dataset itself when no sort column is set, a rearrangement of it
  otherwise), and the export serialises the whole dataset.
\<close>

theorem falsy_maxRows_no_limit:
  "maxRows p = Some 0 \<or> maxRows p = None \<Longrightarrow>
     mset (processedData h p s) = mset (data p)
     \<and> length (processedData h p s) = length (data p)
     \<and> (\<not> truthy_string (sortColumn s) \<longrightarrow> processedData h p s = data p)
     \<and> exportData p = data p
     \<and> blob_text (handleExport h p s ''csv'') = convertToCSV h (data p)
     \<and> (format \<noteq> ''csv'' \<longrightarrow> blob_text (handleExport h p s format) = stringify h (data p))"
  by (auto simp add: processedData_def exportData_def handleExport_def downloadCSV_def
        downloadJSON_def mset_array_sort length_array_sort Let_def)

theorem falsy_maxRows_no_limit_witness:
  "length (processedData (sample_host Later_earlier) (sample_props\<lparr>maxRows := Some 0\<rparr>)
      (handleSort ''a'' initial_state)) = 3
   \<and> processedData (sample_host Later_earlier) (sample_props\<lparr>maxRows := Some 0\<rparr>) initial_state
       = sample_rows
   \<and> exportData (sample_props\<lparr>maxRows := Some 0\<rparr>) = sample_rows
   \<and> exportData (sample_props\<lparr>maxRows := None\<rparr>) = sample_rows"
proof -
  have zero: "maxRows (sample_props\<lparr>maxRows := Some 0\<rparr>) = Some 0
      \<or> maxRows (sample_props\<lparr>maxRows := Some 0\<rparr>) = None"
    by simp
  have none: "maxRows (sample_props\<lparr>maxRows := None\<rparr>) = Some 0
      \<or> maxRows (sample_props\<lparr>maxRows := None\<rparr>) = None"
    by simp
  show ?thesis
    using falsy_maxRows_no_limit [OF zero, of "sample_host Later_earlier" "handleSort ''a'' initial_state" "''json''"]
      falsy_maxRows_no_limit [OF zero, of "sample_host Later_earlier" initial_state "''json''"]
      falsy_maxRows_no_limit [OF none, of "sample_host Later_earlier" initial_state "''json''"]
    by (simp add: sample_props_def sample_rows_def initial_state_def)
qed

subsection \<open>CSV serialisation\<close>

lemma replace_quotes_double: "replace_quotes s = double_quotes s"
  by (induction s) (simp_all add: replace_quotes_def)

lemma csv_value_spec: "toString h (csv_value v) = csv_field_spec h v"
  by (cases v)
    (simp_all add: csv_value_def csv_field_spec_def str_includes_def replace_quotes_double Let_def)

text \<open>
  C7: the CSV text of a dataset with at least one record is the header line, the column
  names of the first record joined by commas, followed by one line per record as the
  specification describes it, all joined by newlines. The value \<^verbatim>\<open>Hello, "World"\<close> is
  written \<^verbatim>\<open>"Hello, ""World"""\<close>.
\<close>

theorem convertToCSV_format:
  "convertToCSV h (r # rs)
     = join [newline] (join [comma] (keys r) # map (csv_line_spec h (keys r)) (r # rs))
   \<and> csv_field_spec h Null = [] \<and> csv_field_spec h Undefined = []
   \<and> csv_field_spec h (Str hello_world)
       = [dquote] @ ''Hello, '' @ [dquote, dquote] @ ''World'' @ [dquote, dquote] @ [dquote]
   \<and> convertToCSV h [[(''greeting'', Str hello_world)]]
       = ''greeting'' @ [newline]
          @ [dquote] @ ''Hello, '' @ [dquote, dquote] @ ''World'' @ [dquote, dquote] @ [dquote]"
proof -
  have field: "csv_field_spec h (Str hello_world)
       = [dquote] @ ''Hello, '' @ [dquote, dquote] @ ''World'' @ [dquote, dquote] @ [dquote]"
    by (simp add: csv_field_spec_def hello_world_def comma_def dquote_def newline_def)
  have shape: "convertToCSV h (r # rs)
     = join [newline] (join [comma] (keys r) # map (csv_line_spec h (keys r)) (r # rs))" for r rs
  proof -
    have "csv_line_spec h (keys r)
        = (\<lambda>x. join [comma] (map (\<lambda>c. csv_field_spec h (property x c)) (keys r)))"
      by (rule ext) (simp add: csv_line_spec_def)
    then show ?thesis
      by (simp add: convertToCSV_def csv_value_spec Let_def)
  qed
  have "convertToCSV h [[(''greeting'', Str hello_world)]]
       = ''greeting'' @ [newline] @ csv_field_spec h (Str hello_world)"
    unfolding shape by (simp add: keys_def csv_line_spec_def property_def)
  with field shape show ?thesis
    by (simp add: csv_field_spec_def)
qed

subsection \<open>Sort clicks and cell clicks\<close>

text \<open>
  C9: a click on the column that is already the sort column flips the direction, and
  a second click flips it back; a click on any other column makes it the sort column,
  ascending. Either way the page is 1 afterwards.
\<close>

theorem handleSort_toggles:
  "sortColumn (handleSort c s) = Some c
   \<and> currentPage (handleSort c s) = 1
   \<and> (sortColumn s = Some c \<longrightarrow>
        sortDirection (handleSort c s) = (if sortDirection s = Asc then Desc else Asc)
        \<and> sortDirection (handleSort c (handleSort c s)) = sortDirection s)
   \<and> (sortColumn s \<noteq> Some c \<longrightarrow> sortDirection (handleSort c s) = Asc)"
  by (cases "sortDirection s") (simp_all add: handleSort_def)

theorem handleSort_toggles_witness:
  "sortColumn (handleSort ''a'' (handleSort ''a'' initial_state)) = Some ''a''
   \<and> sortDirection (handleSort ''a'' initial_state) = Asc
   \<and> sortDirection (handleSort ''a'' (handleSort ''a'' initial_state)) = Desc
   \<and> sortDirection (handleSort ''a'' (handleSort ''a'' (handleSort ''a'' initial_state))) = Asc
   \<and> currentPage (handleSort ''a'' (setCurrentPage 3 (handleSort ''a'' initial_state))) = 1"
  using handleSort_toggles [of "''a''" "initial_state"]
    handleSort_toggles [of "''a''" "handleSort ''a'' initial_state"]
    handleSort_toggles [of "''a''" "setCurrentPage 3 (handleSort ''a'' initial_state)"]
  by (simp add: initial_state_def setCurrentPage_def)

text \<open>
  C8: a string of more than 50 code units is displayed as its first 50 followed by
  three dots, and a click on its cell stores the string itself, unshortened, as the
  expanded cell; a click on a cell holding anything else changes nothing.
\<close>

theorem long_cell_truncated_and_expanded:
  "(50 < length str \<longrightarrow>
      formatCellValue h (Str str) = take 50 str @ ''...''
      \<and> expandedCell (handleCellClick (Str str) column i s)
          = Some \<lparr>cell_value = Str str, cell_column = column, cell_rowIndex = i\<rparr>)
   \<and> ((\<forall>t. v = Str t \<longrightarrow> length t \<le> 50) \<longrightarrow> handleCellClick v column i s = s)"
  by (cases v) (simp_all add: formatCellValue_def handleCellClick_def)

theorem long_cell_truncated_and_expanded_witness:
  "formatCellValue (sample_host Later_earlier) (Str (replicate 60 (CHR ''a'')))
       = replicate 50 (CHR ''a'') @ ''...''
   \<and> map_option cell_value
        (expandedCell (handleCellClick (Str (replicate 60 (CHR ''a''))) ''note'' 0 initial_state))
       = Some (Str (replicate 60 (CHR ''a'')))
   \<and> handleCellClick (Str ''short'') ''note'' 0 initial_state = initial_state
   \<and> handleCellClick (Num (Finite 5)) ''note'' 0 initial_state = initial_state"
  using long_cell_truncated_and_expanded [of "replicate 60 (CHR ''a'')" "sample_host Later_earlier"
      "''note''" 0 initial_state "Str ''short''"]
    long_cell_truncated_and_expanded [of "replicate 60 (CHR ''a'')" "sample_host Later_earlier"
      "''note''" 0 initial_state "Num (Finite 5)"]
  by simp


subsection \<open>The comparator on rows without a value\<close>

lemma compareRows_null_first:
  "loosely_null (property a c) \<Longrightarrow> compareRows h c d a b = Finite 1"
  by (simp add: compareRows_def Let_def)












subsection \<open>Two rows without a value\<close>

text \<open>
  C3 asks that rows with equal sort keys keep their order, the rows without a value
  among themselves included. The comparator answers 1 as soon as its first argument
  has no value, so for two such rows it answers 1 whichever comes first: it never says
  that they are equal. What the sort then does is the engine's choice. On the dataset
  of the specification's scenario, sorted ascending by \<open>b\<close>, an engine that calls
  \<^verbatim>\<open>comparefn(previous, item)\<close> returns the two rows without \<open>b\<close> in swapped order; an
  engine that calls \<^verbatim>\<open>comparefn(item, previous)\<close> keeps them.
\<close>

theorem null_rows_order_depends_on_engine:
  "compareRows (sample_host Earlier_later) ''b'' Asc (sample_rows ! 0) (sample_rows ! 2) = Finite 1
   \<and> compareRows (sample_host Earlier_later) ''b'' Asc (sample_rows ! 2) (sample_rows ! 0) = Finite 1
   \<and> processedData (sample_host Earlier_later) unsorted_props (handleSort ''b'' initial_state)
       = [sample_rows ! 1, sample_rows ! 2, sample_rows ! 0]
   \<and> processedData (sample_host Later_earlier) unsorted_props (handleSort ''b'' initial_state)
       = [sample_rows ! 1, sample_rows ! 0, sample_rows ! 2]"
  by code_simp

subsection \<open>A sort column that no row has\<close>

lemma property_absent:
  "map_of r c = None \<Longrightarrow> c \<notin> set object_prototype_names \<Longrightarrow> loosely_null (property r c)"
  by (simp add: property_def)

lemma place_valueless_later_earlier:
  "loosely_null (property x c) \<Longrightarrow> place Later_earlier (compareRows h c d) x done = x # done"
  by (cases "done") (simp_all add: compareRows_null_first)

lemma sort_loop_valueless_later_earlier:
  "\<forall>r\<in>set todo. loosely_null (property r c) \<Longrightarrow>
     sort_loop Later_earlier (compareRows h c d) done todo = rev done @ todo"
  by (induction todo arbitrary: "done")
    (simp_all add: place_valueless_later_earlier)

lemma place_valueless_earlier_later:
  "\<forall>r\<in>set done. loosely_null (property r c) \<Longrightarrow>
     place Earlier_later (compareRows h c d) x done = done @ [x]"
  by (induction "done") (simp_all add: compareRows_null_first)

lemma sort_loop_valueless_earlier_later:
  "\<forall>r\<in>set done \<union> set todo. loosely_null (property r c) \<Longrightarrow>
     sort_loop Earlier_later (compareRows h c d) done todo = rev todo @ rev done"
  by (induction todo arbitrary: "done") (simp_all add: place_valueless_earlier_later)

text \<open>
  When no row has a value in the sort column, be it \<^verbatim>\<open>null\<close> or missing, every
  comparison answers 1. An engine that calls \<^verbatim>\<open>comparefn(item, previous)\<close> then leaves
  the rows as they are, and one that calls \<^verbatim>\<open>comparefn(previous, item)\<close> reverses them.
\<close>

lemma valueless_column_sort:
  assumes "\<forall>r\<in>set rs. loosely_null (property r c)"
  shows "array_sort Later_earlier (compareRows h c d) rs = rs"
    and "array_sort Earlier_later (compareRows h c d) rs = rev rs"
  using assms
  by (simp_all add: array_sort_def sort_loop_valueless_later_earlier
      sort_loop_valueless_earlier_later)

lemma absent_column_sort:
  assumes "\<forall>r\<in>set rs. map_of r c = None" and "c \<notin> set object_prototype_names"
  shows "array_sort Later_earlier (compareRows h c d) rs = rs"
    and "array_sort Earlier_later (compareRows h c d) rs = rev rs"
  using assms by (simp_all add: valueless_column_sort property_absent)

text \<open>
  C5 asks that sorting by a column absent from the records leaves the rows in their
  original order. \<^verbatim>\<open>handleSort\<close> takes any name, and the rows stay in order on one kind
  of engine; on the other the three rows of the sample dataset, sorted by the absent
  column \<open>zz\<close>, come out reversed.
\<close>

theorem absent_column_order_depends_on_engine:
  "sortColumn (handleSort ''zz'' initial_state) = Some ''zz''
   \<and> processedData (sample_host Earlier_later) unsorted_props (handleSort ''zz'' initial_state)
       = [sample_rows ! 2, sample_rows ! 1, sample_rows ! 0]
   \<and> processedData (sample_host Later_earlier) unsorted_props (handleSort ''zz'' initial_state)
       = sample_rows"
  by code_simp

subsection \<open>Numeric and textual comparison\<close>


subsection \<open>A column in order\<close>

















end
